theory Spec2Isabelle
  imports Main "HOL-Library.Sublist" "HOL-Library.Multiset"
begin

section \<open>JavaScript values and the built-ins that Gists.js calls\<close>

text \<open>
  A JavaScript string is modelled as an Isabelle \<open>string\<close>, one \<open>char\<close> per UTF-16 code
  unit, for the code units \<open>0x00 .. 0xFF\<close> (ISO 8859-1). On these strings every built-in
  below computes what ECMAScript prescribes. Integer-valued numbers are \<open>int\<close>. An object
  is the list of its own properties, each name once.
\<close>

datatype jsval =
    JUndefined
  | JNull
  | JBool bool
  | JNum int
  | JStr string
  | JArr "jsval list"
  | JObj "(string \<times> jsval) list"

text \<open>A thrown \<open>Error\<close> object: its \<open>name\<close> and its \<open>message\<close>.\<close>

datatype jserror = JSError string string

text \<open>
  \<open>Error.prototype.toString\<close>, which the template literal \<open>`${err}`\<close> applies:
  the name alone, the message alone, or \<open>name: message\<close>.
\<close>

fun errorToString :: "jserror \<Rightarrow> string" where
  "errorToString (JSError name msg) =
     (if name = [] then msg else if msg = [] then name else name @ '': '' @ msg)"

text \<open>ToBoolean.\<close>

fun truthy :: "jsval \<Rightarrow> bool" where
  "truthy JUndefined = False"
| "truthy JNull = False"
| "truthy (JBool b) = b"
| "truthy (JNum n) = (n \<noteq> 0)"
| "truthy (JStr s) = (s \<noteq> [])"
| "truthy (JArr xs) = True"
| "truthy (JObj kvs) = True"

text \<open>The \<open>typeof\<close> operator.\<close>

fun typeof :: "jsval \<Rightarrow> string" where
  "typeof JUndefined = ''undefined''"
| "typeof JNull = ''object''"
| "typeof (JBool b) = ''boolean''"
| "typeof (JNum n) = ''number''"
| "typeof (JStr s) = ''string''"
| "typeof (JArr xs) = ''object''"
| "typeof (JObj kvs) = ''object''"

text \<open>
  Reading a property that no prototype defines (\<open>updated_at\<close>, \<open>description\<close>): on
  \<open>null\<close> and \<open>undefined\<close> a TypeError, on an object its own property or \<open>undefined\<close>,
  on every other value \<open>undefined\<close>. The text of an engine-raised message is the
  engine's own; V8's wording is used.
\<close>

definition quoted :: "string \<Rightarrow> string" where
  "quoted k = CHR 0x27 # k @ [CHR 0x27]"

fun getProp :: "jsval \<Rightarrow> string \<Rightarrow> jserror + jsval" where
  "getProp JUndefined k =
     Inl (JSError ''TypeError''
           (''Cannot read properties of undefined (reading '' @ quoted k @ '')''))"
| "getProp JNull k =
     Inl (JSError ''TypeError''
           (''Cannot read properties of null (reading '' @ quoted k @ '')''))"
| "getProp (JObj kvs) k = (case map_of kvs k of None \<Rightarrow> Inr JUndefined | Some v \<Rightarrow> Inr v)"
| "getProp v k = Inr JUndefined"

subsection \<open>Number to string\<close>

definition digit :: "nat \<Rightarrow> char" where
  "digit d = char_of (48 + d)"

fun decimal :: "nat \<Rightarrow> string" where
  "decimal n = (if n < 10 then [digit n] else decimal (n div 10) @ [digit (n mod 10)])"

declare decimal.simps [simp del]

text \<open>\<open>Number::toString\<close> on an integer-valued number (below \<open>10^21\<close> in magnitude).\<close>

definition numberToString :: "int \<Rightarrow> string" where
  "numberToString i = (if i < 0 then CHR ''-'' # decimal (nat (- i)) else decimal (nat i))"

subsection \<open>String.prototype.includes, toLowerCase, slice(0, n)\<close>

fun includesStr :: "string \<Rightarrow> string \<Rightarrow> bool" where
  "includesStr [] sub = (sub = [])"
| "includesStr (c # cs) sub = (prefix sub (c # cs) \<or> includesStr cs sub)"

text \<open>
  The Unicode lower-case mapping on the code units \<open>0x00 .. 0xFF\<close>: \<open>A .. Z\<close> and the
  letters \<open>0xC0 .. 0xDE\<close> other than the multiplication sign \<open>0xD7\<close> move up by \<open>0x20\<close>.
\<close>

definition lowerChar :: "char \<Rightarrow> char" where
  "lowerChar c =
     (let n = (of_char c :: nat)
      in if (65 \<le> n \<and> n \<le> 90) \<or> (192 \<le> n \<and> n \<le> 222 \<and> n \<noteq> 215) then char_of (n + 32) else c)"

definition toLowerCase :: "string \<Rightarrow> string" where
  "toLowerCase s = map lowerChar s"

definition slice0 :: "nat \<Rightarrow> string \<Rightarrow> string" where
  "slice0 n s = take n s"

subsection \<open>encodeURIComponent\<close>

text \<open>
  ECMAScript's \<open>Encode\<close> with the unreserved set of \<open>encodeURIComponent\<close>: letters, digits
  and \<open>- _ . ! ~ * ' ( )\<close> stay; every other code unit is written as the \<open>%XX\<close> escapes
  of its UTF-8 octets (one octet below \<open>0x80\<close>, two from \<open>0x80\<close> to \<open>0xFF\<close>).
\<close>

definition uriUnreserved :: "char \<Rightarrow> bool" where
  "uriUnreserved c =
     (let n = (of_char c :: nat)
      in (65 \<le> n \<and> n \<le> 90) \<or> (97 \<le> n \<and> n \<le> 122) \<or> (48 \<le> n \<and> n \<le> 57)
         \<or> c \<in> set ''-_.!~*'' \<or> n = 39 \<or> c \<in> set ''()'')"

definition hexDigit :: "nat \<Rightarrow> char" where
  "hexDigit d = (if d < 10 then char_of (48 + d) else char_of (55 + d))"

definition pctOctet :: "nat \<Rightarrow> string" where
  "pctOctet b = [CHR ''%'', hexDigit (b div 16), hexDigit (b mod 16)]"

definition utf8Octets :: "nat \<Rightarrow> nat list" where
  "utf8Octets cp = (if cp < 128 then [cp] else [192 + cp div 64, 128 + cp mod 64])"

definition encodeChar :: "char \<Rightarrow> string" where
  "encodeChar c = (if uriUnreserved c then [c] else concat (map pctOctet (utf8Octets (of_char c))))"

definition encodeURIComponent :: "string \<Rightarrow> string" where
  "encodeURIComponent s = concat (map encodeChar s)"

subsection \<open>decodeURIComponent\<close>

text \<open>
  ECMAScript's \<open>Decode\<close> with no reserved set, in two passes that fail where the
  standard's single loop fails: the string is cut into literal code units and \<open>%XX\<close>
  octets (upper- or lower-case hexadecimal), then each run of octets is read as UTF-8.
  A decoded code point may lie above \<open>0xFF\<close>, so the result is given as the list of its
  UTF-16 code units.
\<close>

definition hexValue :: "char \<Rightarrow> nat option" where
  "hexValue c =
     (let n = (of_char c :: nat)
      in if 48 \<le> n \<and> n \<le> 57 then Some (n - 48)
         else if 65 \<le> n \<and> n \<le> 70 then Some (n - 55)
         else if 97 \<le> n \<and> n \<le> 102 then Some (n - 87)
         else None)"

datatype uritoken = Literal char | Octet nat

fun uriTokens :: "string \<Rightarrow> uritoken list option" where
  "uriTokens [] = Some []"
| "uriTokens (c # cs) =
     (if c = CHR ''%''
      then (case cs of
              a # b # rest \<Rightarrow>
                (case (hexValue a, hexValue b) of
                   (Some h, Some l) \<Rightarrow> map_option ((#) (Octet (16 * h + l))) (uriTokens rest)
                 | _ \<Rightarrow> None)
            | _ \<Rightarrow> None)
      else map_option ((#) (Literal c)) (uriTokens cs))"

definition continuation :: "nat \<Rightarrow> bool" where
  "continuation b = (128 \<le> b \<and> b \<le> 191)"

text \<open>
  The UTF-16 code units that a lead octet and the tokens after it stand for, and how many
  of those tokens are used: a well-formed UTF-8 sequence only (no overlong form, no
  surrogate, nothing above \<open>0x10FFFF\<close>).
\<close>

definition utf8Units :: "nat \<Rightarrow> uritoken list \<Rightarrow> (nat list \<times> nat) option" where
  "utf8Units b ts =
     (if b < 128 then Some ([b], 0)
      else if 194 \<le> b \<and> b \<le> 223 then
        (case ts of
           Octet c1 # ts' \<Rightarrow>
             if continuation c1 then Some ([(b - 192) * 64 + (c1 - 128)], 1) else None
         | _ \<Rightarrow> None)
      else if 224 \<le> b \<and> b \<le> 239 then
        (case ts of
           Octet c1 # Octet c2 # ts' \<Rightarrow>
             (let cp = (b - 224) * 4096 + (c1 - 128) * 64 + (c2 - 128)
              in if continuation c1 \<and> continuation c2 \<and> 2048 \<le> cp
                    \<and> \<not> (55296 \<le> cp \<and> cp \<le> 57343)
                 then Some ([cp], 2) else None)
         | _ \<Rightarrow> None)
      else if 240 \<le> b \<and> b \<le> 244 then
        (case ts of
           Octet c1 # Octet c2 # Octet c3 # ts' \<Rightarrow>
             (let cp = (b - 240) * 262144 + (c1 - 128) * 4096 + (c2 - 128) * 64 + (c3 - 128)
              in if continuation c1 \<and> continuation c2 \<and> continuation c3
                    \<and> 65536 \<le> cp \<and> cp \<le> 1114111
                 then Some ([55296 + (cp - 65536) div 1024, 56320 + (cp - 65536) mod 1024], 3)
                 else None)
         | _ \<Rightarrow> None)
      else None)"

function decodeTokens :: "uritoken list \<Rightarrow> nat list option" where
  "decodeTokens [] = Some []"
| "decodeTokens (Literal c # ts) = map_option ((#) (of_char c)) (decodeTokens ts)"
| "decodeTokens (Octet b # ts) =
     (case utf8Units b ts of
        None \<Rightarrow> None
      | Some (units, k) \<Rightarrow> map_option ((@) units) (decodeTokens (drop k ts)))"
  by pat_completeness auto
termination
  by (relation "measure length") auto

definition decodeURIComponent :: "string \<Rightarrow> jserror + nat list" where
  "decodeURIComponent s =
     (case uriTokens s of
        None \<Rightarrow> Inl (JSError ''URIError'' ''URI malformed'')
      | Some ts \<Rightarrow>
          (case decodeTokens ts of
             None \<Rightarrow> Inl (JSError ''URIError'' ''URI malformed'')
           | Some units \<Rightarrow> Inr units))"

subsection \<open>The query of a URL\<close>

text \<open>
  What a server reads from a URL, after the URL standard: the query runs from the first
  \<open>?\<close> to the first \<open>#\<close>; its parameters are the non-empty pieces between \<open>&\<close>, each
  cut at its first \<open>=\<close> into a name and a value (both left percent-encoded).
\<close>

fun splitOn :: "char \<Rightarrow> string \<Rightarrow> string list" where
  "splitOn sep [] = [[]]"
| "splitOn sep (c # cs) =
     (if c = sep then [] # splitOn sep cs
      else (case splitOn sep cs of [] \<Rightarrow> [[c]] | p # ps \<Rightarrow> (c # p) # ps))"

definition urlQuery :: "string \<Rightarrow> string option" where
  "urlQuery url =
     (let noFragment = takeWhile (\<lambda>c. c \<noteq> CHR ''#'') url
      in if CHR ''?'' \<in> set noFragment
         then Some (tl (dropWhile (\<lambda>c. c \<noteq> CHR ''?'') noFragment)) else None)"

definition nameValue :: "string \<Rightarrow> string \<times> string" where
  "nameValue p =
     (takeWhile (\<lambda>c. c \<noteq> CHR ''='') p, drop 1 (dropWhile (\<lambda>c. c \<noteq> CHR ''='') p))"

definition queryParams :: "string \<Rightarrow> (string \<times> string) list" where
  "queryParams url =
     (case urlQuery url of
        None \<Rightarrow> []
      | Some q \<Rightarrow> map nameValue (filter (\<lambda>p. p \<noteq> []) (splitOn CHR ''&'' q)))"

section \<open>Gists.js\<close>

subsection \<open>gistsApiUrl\<close>

text \<open>
  \<open>limit\<close> is \<open>None\<close> when the argument is left out (the default \<open>100\<close> applies);
  \<open>sinceDate\<close> is \<open>None\<close> when it is left out or \<open>null\<close>. The test \<open>if (sinceDate)\<close> is
  ToBoolean, so the empty string counts as absent.
\<close>

definition gistsApiUrl :: "string \<Rightarrow> int option \<Rightarrow> string option \<Rightarrow> string" where
  "gistsApiUrl username limit sinceDate =
     (let lim = (case limit of None \<Rightarrow> 100 | Some l \<Rightarrow> l);
          url = ''https://api.github.com/users/'' @ username @ ''/gists?per_page='' @ numberToString lim
      in case sinceDate of
           None \<Rightarrow> url
         | Some d \<Rightarrow> if truthy (JStr d) then url @ ''&since='' @ encodeURIComponent d else url)"

subsection \<open>requestJson\<close>

text \<open>
  The network is a parameter: \<open>fetch url\<close> is what \<open>await fetch(url)\<close> gives, a rejection
  (\<open>Inl\<close>) or a response. Of a response the code reads \<open>status\<close>, \<open>statusText\<close>, and the
  outcome of \<open>resp.text()\<close> or of \<open>resp.json()\<close>, each a rejection or a value. \<open>resp.ok\<close>
  is the Fetch standard's test for a status from 200 to 299.
\<close>

record response =
  status :: nat
  statusText :: string
  bodyText :: "jserror + string"
  bodyJson :: "jserror + jsval"

definition ok :: "response \<Rightarrow> bool" where
  "ok resp = (200 \<le> status resp \<and> status resp \<le> 299)"

definition requestJson :: "(string \<Rightarrow> jserror + response) \<Rightarrow> string \<Rightarrow> jserror + jsval" where
  "requestJson fetch url =
     (case fetch url of
        Inl e \<Rightarrow> Inl e
      | Inr resp \<Rightarrow>
          if \<not> ok resp
          then (case bodyText resp of
                  Inl e \<Rightarrow> Inl e
                | Inr errorBody \<Rightarrow>
                    Inl (JSError ''Error''
                          (''HTTP error: '' @ numberToString (int (status resp)) @ '' - ''
                           @ statusText resp @ ''. URL: '' @ url @ ''. Response: '' @ errorBody)))
          else bodyJson resp)"

subsection \<open>The sort in render\<close>

text \<open>
  The comparator \<open>(a, b) => new Date(b.updated_at) - new Date(a.updated_at)\<close>. How a value
  becomes a \<open>Date\<close> is the engine's business and a parameter here: \<open>dateValue v\<close> is the
  time value of \<open>new Date(v)\<close> in milliseconds, \<open>None\<close> for an invalid date, whose
  difference with anything is \<open>NaN\<close>. \<open>b.updated_at\<close> is read first.
\<close>

definition compareUpdated ::
  "(jsval \<Rightarrow> int option) \<Rightarrow> jsval \<Rightarrow> jsval \<Rightarrow> jserror + int option" where
  "compareUpdated dateValue a b =
     (case getProp b ''updated_at'' of
        Inl e \<Rightarrow> Inl e
      | Inr ub \<Rightarrow>
          (case getProp a ''updated_at'' of
             Inl e \<Rightarrow> Inl e
           | Inr ua \<Rightarrow>
               Inr (case (dateValue ub, dateValue ua) of
                      (Some tb, Some ta) \<Rightarrow> Some (tb - ta)
                    | _ \<Rightarrow> None)))"

text \<open>
  \<open>Array.prototype.sort\<close> with a comparator: stable, a \<open>NaN\<close> from the comparator counts
  as \<open>0\<close>, an exception of the comparator ends the sort. ECMAScript leaves the algorithm
  to the engine; with a consistent comparator every stable algorithm returns the same
  array, and a stable insertion sort stands for them.
\<close>

fun insertSorted ::
  "('a \<Rightarrow> 'a \<Rightarrow> jserror + int option) \<Rightarrow> 'a \<Rightarrow> 'a list \<Rightarrow> jserror + 'a list" where
  "insertSorted cmp x [] = Inr [x]"
| "insertSorted cmp x (y # ys) =
     (case cmp x y of
        Inl e \<Rightarrow> Inl e
      | Inr v \<Rightarrow>
          if (case v of None \<Rightarrow> 0 | Some d \<Rightarrow> d) > 0
          then (case insertSorted cmp x ys of Inl e \<Rightarrow> Inl e | Inr r \<Rightarrow> Inr (y # r))
          else Inr (x # y # ys))"

fun sortWith :: "('a \<Rightarrow> 'a \<Rightarrow> jserror + int option) \<Rightarrow> 'a list \<Rightarrow> jserror + 'a list" where
  "sortWith cmp [] = Inr []"
| "sortWith cmp (x # xs) =
     (case sortWith cmp xs of Inl e \<Rightarrow> Inl e | Inr r \<Rightarrow> insertSorted cmp x r)"

text \<open>
  \<open>fetchedGists.sort(...)\<close> on whatever \<open>resp.json()\<close> gave: only an array has a \<open>sort\<close>
  method; a JSON object, string, number or boolean has none, and \<open>null\<close> has no
  properties.
\<close>

fun sortGists :: "(jsval \<Rightarrow> int option) \<Rightarrow> jsval \<Rightarrow> jserror + jsval list" where
  "sortGists dateValue (JArr xs) = sortWith (compareUpdated dateValue) xs"
| "sortGists dateValue JNull =
     Inl (JSError ''TypeError'' ''Cannot read properties of null (reading 'sort')'')"
| "sortGists dateValue JUndefined =
     Inl (JSError ''TypeError'' ''Cannot read properties of undefined (reading 'sort')'')"
| "sortGists dateValue v = Inl (JSError ''TypeError'' ''fetchedGists.sort is not a function'')"

subsection \<open>The component: props, data, render\<close>

text \<open>
  The props \<open>username\<close> and \<open>filter\<close> and the fields of \<open>data()\<close>. \<open>gists\<close> is
  \<open>None\<close> for \<open>null\<close>. Console output is not part of the model.
\<close>

record component =
  username :: string
  filterText :: string
  gists :: "jsval list option"
  loading :: bool
  errored :: bool
  errorMsg :: string
  sinceDateThreshold :: string

definition data :: "string \<Rightarrow> string \<Rightarrow> component" where
  "data u f =
     \<lparr> username = u, filterText = f, gists = None, loading = True, errored = False,
       errorMsg = [], sinceDateThreshold = ''2022-01-01T00:00:00Z'' \<rparr>"

text \<open>
  \<open>render\<close> runs up to its first \<open>await\<close> (\<open>renderUrl\<close>, \<open>renderStart\<close>), the request is
  in flight, and the \<open>try\<close> block's outcome (\<open>renderTry\<close>) settles the state through
  \<open>catch\<close> and \<open>finally\<close> (\<open>renderSettle\<close>).
\<close>

definition renderUrl :: "component \<Rightarrow> string" where
  "renderUrl s = gistsApiUrl (username s) (Some 100) (Some (sinceDateThreshold s))"

definition renderStart :: "component \<Rightarrow> component" where
  "renderStart s = s\<lparr> loading := True, errored := False, gists := None \<rparr>"

definition renderTry ::
  "(jsval \<Rightarrow> int option) \<Rightarrow> (string \<Rightarrow> jserror + response) \<Rightarrow> string \<Rightarrow> jserror + jsval list" where
  "renderTry dateValue fetch url =
     (case requestJson fetch url of
        Inl e \<Rightarrow> Inl e
      | Inr fetchedGists \<Rightarrow> sortGists dateValue fetchedGists)"

definition renderSettle :: "jserror + jsval list \<Rightarrow> component \<Rightarrow> component" where
  "renderSettle outcome s =
     (case outcome of
        Inr fetchedGists \<Rightarrow> s\<lparr> gists := Some fetchedGists, loading := False \<rparr>
      | Inl err \<Rightarrow>
          s\<lparr> gists := None, errored := True,
             errorMsg := ''Unable to fetch Gists API data. Error: '' @ errorToString err,
             loading := False \<rparr>)"

definition render ::
  "(jsval \<Rightarrow> int option) \<Rightarrow> (string \<Rightarrow> jserror + response) \<Rightarrow> component \<Rightarrow> component" where
  "render dateValue fetch s =
     renderSettle (renderTry dateValue fetch (renderUrl s)) (renderStart s)"

definition mounted ::
  "(jsval \<Rightarrow> int option) \<Rightarrow> (string \<Rightarrow> jserror + response) \<Rightarrow> component \<Rightarrow> component" where
  "mounted dateValue fetch s = render dateValue fetch s"

text \<open>
  Fetch cycles one after the other, each against the network as it is at that time. The
  states the component passes through are \<open>cycles dateValue fs s\<close> between cycles and
  \<open>renderStart\<close> of such a state while a request is in flight.
\<close>

fun cycles ::
  "(jsval \<Rightarrow> int option) \<Rightarrow> (string \<Rightarrow> jserror + response) list \<Rightarrow> component \<Rightarrow> component" where
  "cycles dateValue [] s = s"
| "cycles dateValue (fetch # later) s = cycles dateValue later (render dateValue fetch s)"

subsection \<open>contains\<close>

text \<open>
  Both arguments are arbitrary values, as in the source. \<open>filter.toLowerCase()\<close> is
  reached only with a string description; on a filter that is no string it raises.
\<close>

definition contains :: "jsval \<Rightarrow> jsval \<Rightarrow> jserror + bool" where
  "contains v flt =
     (if flt = JStr [] then Inr True
      else
        let description = (if truthy v then v else JStr [])
        in if typeof description \<noteq> ''string'' then Inr False
           else (case description of
                   JStr d \<Rightarrow>
                     (case flt of
                        JStr f \<Rightarrow> Inr (includesStr (toLowerCase d) (toLowerCase f))
                      | JNull \<Rightarrow>
                          Inl (JSError ''TypeError''
                                ''Cannot read properties of null (reading 'toLowerCase')'')
                      | JUndefined \<Rightarrow>
                          Inl (JSError ''TypeError''
                                ''Cannot read properties of undefined (reading 'toLowerCase')'')
                      | _ \<Rightarrow> Inl (JSError ''TypeError'' ''filter.toLowerCase is not a function''))
                 | _ \<Rightarrow> Inr False))"

subsection \<open>The template\<close>

text \<open>\<open>gists.filter(gist => contains(gist.description, filter))\<close>.\<close>

fun matching :: "string \<Rightarrow> jsval list \<Rightarrow> jserror + jsval list" where
  "matching f [] = Inr []"
| "matching f (gist # rest) =
     (case getProp gist ''description'' of
        Inl e \<Rightarrow> Inl e
      | Inr d \<Rightarrow>
          (case contains d (JStr f) of
             Inl e \<Rightarrow> Inl e
           | Inr keep \<Rightarrow>
               (case matching f rest of
                  Inl e \<Rightarrow> Inl e
                | Inr kept \<Rightarrow> Inr (if keep then gist # kept else kept))))"

text \<open>
  The row of the table,
  \<open><tr v-for="gist in gists" :key="gist.id" v-if="contains(gist.description, filter)">\<close>,
  carries \<open>v-for\<close> and \<open>v-if\<close> on one element. The page loads Vue 3.2, which evaluates
  such a \<open>v-if\<close> before the \<open>v-for\<close>: in the condition \<open>gist\<close> is not the loop variable
  but a property of the component, and the component has none of that name, so it is
  \<open>undefined\<close> and reading its \<open>description\<close> raises.
\<close>

definition rowCondition :: "component \<Rightarrow> jserror + bool" where
  "rowCondition s =
     (case getProp JUndefined ''description'' of
        Inl e \<Rightarrow> Inl e
      | Inr d \<Rightarrow> contains d (JStr (filterText s)))"

text \<open>
  The blocks of the template that a render draws, by their \<open>v-if\<close>, \<open>v-else\<close> and
  \<open>v-else-if\<close> conditions, in document order: the error panel with \<open>errorMsg\<close> and the
  username; the loading note; the table with the gists of its rows (all of them when the
  row's condition holds, none otherwise); the paragraph "No gists found matching your
  filter criteria" (\<open>NoMatchNote\<close>) and, as its \<open>v-else-if\<close>, the paragraph "No gists found
  updated since" (\<open>NoGistsNote\<close>). The notes carry \<open>sinceDateThreshold.slice(0, 10)\<close>. An
  expression that raises ends the render with that error.
\<close>

datatype view =
    ErrorPanel string string
  | LoadingNote string
  | GistTable "jsval list"
  | NoMatchNote string
  | NoGistsNote string

text \<open>
  The two paragraphs after the table, once \<open>!loading && gists\<close> holds: the first asks for
  \<open>gists.filter(gist => contains(gist.description, filter)).length === 0\<close>, the second, its
  \<open>v-else-if\<close>, for \<open>gists.length === 0\<close>.
\<close>

definition emptyNotes :: "string \<Rightarrow> jsval list \<Rightarrow> string \<Rightarrow> jserror + view list" where
  "emptyNotes f gs since =
     (case matching f gs of
        Inl e \<Rightarrow> Inl e
      | Inr shown \<Rightarrow>
          Inr (if length shown = 0 then [NoMatchNote since]
               else if length gs = 0 then [NoGistsNote since]
               else []))"

definition template :: "component \<Rightarrow> jserror + view list" where
  "template s =
     (if errored s then Inr [ErrorPanel (errorMsg s) (username s)]
      else
        let since = slice0 10 (sinceDateThreshold s);
            loadingNote = (if loading s then [LoadingNote since] else [])
        in case gists s of
             None \<Rightarrow> Inr loadingNote
           | Some gs \<Rightarrow>
               if loading s then Inr loadingNote
               else (case rowCondition s of
                       Inl e \<Rightarrow> Inl e
                     | Inr drawn \<Rightarrow>
                         (case emptyNotes (filterText s) gs since of
                            Inl e \<Rightarrow> Inl e
                          | Inr notes \<Rightarrow> Inr (GistTable (if drawn then gs else []) # notes))))"

section \<open>Notions used to state the properties\<close>

text \<open>The description as the filter compares it: a string as it is, anything else empty.\<close>

fun descriptionText :: "jsval \<Rightarrow> string" where
  "descriptionText (JStr d) = d"
| "descriptionText v = []"

text \<open>\<open>Array.isArray\<close>.\<close>

fun isArray :: "jsval \<Rightarrow> bool" where
  "isArray (JArr xs) = True"
| "isArray v = False"

text \<open>
  The instant a gist was last updated, when it has one: \<open>updated_at\<close> can be read and
  makes a valid date.
\<close>

definition updatedTime :: "(jsval \<Rightarrow> int option) \<Rightarrow> jsval \<Rightarrow> int option" where
  "updatedTime dateValue gist =
     (case getProp gist ''updated_at'' of Inl e \<Rightarrow> None | Inr v \<Rightarrow> dateValue v)"

definition newerOrEqual :: "(jsval \<Rightarrow> int option) \<Rightarrow> jsval \<Rightarrow> jsval \<Rightarrow> bool" where
  "newerOrEqual dateValue a b =
     (case (updatedTime dateValue a, updatedTime dateValue b) of
        (Some ta, Some tb) \<Rightarrow> tb \<le> ta
      | _ \<Rightarrow> False)"

text \<open>
  The two timestamps of the spec's scenario with their time values (milliseconds since
  1970-01-01T00:00:00Z); every other value is left an invalid date.
\<close>

definition scenarioDates :: "jsval \<Rightarrow> int option" where
  "scenarioDates v =
     (if v = JStr ''2023-01-02T00:00:00Z'' then Some 1672617600000
      else if v = JStr ''2023-05-01T00:00:00Z'' then Some 1682899200000
      else None)"

definition scenarioGist :: "string \<Rightarrow> string \<Rightarrow> string \<Rightarrow> jsval" where
  "scenarioGist i d u = JObj [(''id'', JStr i), (''description'', JStr d), (''updated_at'', JStr u)]"

text \<open>Networks for the examples: one that answers every URL alike, one that fails.\<close>

definition respond :: "nat \<Rightarrow> string \<Rightarrow> string \<Rightarrow> jserror + jsval \<Rightarrow> string \<Rightarrow> jserror + response" where
  "respond code reason body parsed url =
     Inr \<lparr> status = code, statusText = reason, bodyText = Inr body, bodyJson = parsed \<rparr>"

definition reject :: "jserror \<Rightarrow> string \<Rightarrow> jserror + response" where
  "reject e url = Inl e"

text \<open>
  The tokens that \<open>encodeURIComponent\<close> writes for one code unit, as \<open>uriTokens\<close> reads
  them back.
\<close>

definition encTokens :: "char \<Rightarrow> uritoken list" where
  "encTokens c = (if uriUnreserved c then [Literal c] else map Octet (utf8Octets (of_char c)))"

definition uriSafe :: "char \<Rightarrow> bool" where
  "uriSafe c = (uriUnreserved c \<or> c = CHR ''%'')"

section \<open>Lemmas\<close>

subsection \<open>Strings\<close>

lemma includesStr_sublist: "includesStr s sub \<longleftrightarrow> sublist sub s"
  by (induction s) (simp_all add: sublist_Cons_right)

lemma includesStr_appendI: "includesStr (a @ sub @ b) sub"
  by (simp add: includesStr_sublist)

lemma includesStr_suffixI: "includesStr (a @ sub) sub"
  by (simp add: includesStr_sublist)

lemma includesStr_empty: "includesStr s []"
  by (simp add: includesStr_sublist)

lemma toLowerCase_empty: "toLowerCase s = [] \<longleftrightarrow> s = []"
  by (simp add: toLowerCase_def)

lemma append_single: "(@) [x] = (#) x"
  by (rule ext) simp

lemma takeWhile_until: "x \<notin> set a \<Longrightarrow> takeWhile (\<lambda>c. c \<noteq> x) (a @ x # b) = a"
  by (induction a) auto

lemma dropWhile_until: "x \<notin> set a \<Longrightarrow> dropWhile (\<lambda>c. c \<noteq> x) (a @ x # b) = x # b"
  by (induction a) auto

lemma splitOn_notin: "sep \<notin> set s \<Longrightarrow> splitOn sep s = [s]"
  by (induction s) auto

lemma splitOn_append: "sep \<notin> set a \<Longrightarrow> splitOn sep (a @ sep # b) = a # splitOn sep b"
  by (induction a) auto

subsection \<open>Decimal digits\<close>

lemma of_char_digit: "k < 10 \<Longrightarrow> (of_char (digit k) :: nat) = 48 + k"
  by (simp add: digit_def)

lemma decimal_chars:
  "c \<in> set (decimal n) \<Longrightarrow> 48 \<le> (of_char c :: nat) \<and> (of_char c :: nat) \<le> 57"
proof (induction n rule: decimal.induct)
  case (1 n)
  show ?case
  proof (cases "n < 10")
    case True
    with 1(2) have "c = digit n" by (simp add: decimal.simps[of n])
    with True show ?thesis by (simp add: of_char_digit)
  next
    case False
    with 1(2) have "c \<in> set (decimal (n div 10)) \<or> c = digit (n mod 10)"
      by (auto simp add: decimal.simps[of n])
    then show ?thesis
    proof
      assume "c \<in> set (decimal (n div 10))"
      with 1(1) False show ?thesis by simp
    next
      assume "c = digit (n mod 10)"
      then show ?thesis by (simp add: of_char_digit)
    qed
  qed
qed

lemma numberToString_chars:
  "c \<in> set (numberToString i) \<Longrightarrow> (48 \<le> (of_char c :: nat) \<and> (of_char c :: nat) \<le> 57) \<or> c = CHR ''-''"
  by (auto simp: numberToString_def dest: decimal_chars split: if_splits)

lemma numberToString_free:
  assumes "(of_char x :: nat) < 45 \<or> 57 < (of_char x :: nat)"
  shows "x \<notin> set (numberToString i)"
proof
  assume "x \<in> set (numberToString i)"
  from numberToString_chars[OF this] assms show False by auto
qed

subsection \<open>Percent-encoding and its inverse\<close>

lemma hexValue_hexDigit: "d < 16 \<Longrightarrow> hexValue (hexDigit d) = Some d"
  by (simp add: hexValue_def hexDigit_def Let_def)

lemma uriTokens_pctOctet:
  assumes "b < 256"
  shows "uriTokens (pctOctet b @ rest) = map_option ((#) (Octet b)) (uriTokens rest)"
proof -
  from assms have "b div 16 < 16" by simp
  moreover have "b mod 16 < 16" by simp
  moreover have "16 * (b div 16) + b mod 16 = b" by simp
  ultimately show ?thesis
    by (simp add: pctOctet_def hexValue_hexDigit)
qed

lemma uriTokens_two_octets:
  assumes "n < 256"
  shows "uriTokens (pctOctet (192 + n div 64) @ pctOctet (128 + n mod 64) @ rest) =
         map_option ((@) [Octet (192 + n div 64), Octet (128 + n mod 64)]) (uriTokens rest)"
proof -
  from assms have a: "192 + n div 64 < 256" by arith
  have b: "128 + n mod 64 < 256" by arith
  show ?thesis
    by (simp only: uriTokens_pctOctet[OF a] uriTokens_pctOctet[OF b])
       (cases "uriTokens rest"; simp)
qed

lemma utf8Units_two_octets:
  assumes "128 \<le> n" "n < 256"
  shows "utf8Units (192 + n div 64) (Octet (128 + n mod 64) # ts) = Some ([n], 1)"
proof -
  from assms have "194 \<le> 192 + n div 64" "192 + n div 64 \<le> 223" by arith+
  moreover have "continuation (128 + n mod 64)"
    unfolding continuation_def by arith
  moreover have "(192 + n div 64 - 192) * 64 + (128 + n mod 64 - 128) = n" by simp
  ultimately show ?thesis
    by (simp add: utf8Units_def)
qed

lemma uriUnreserved_not_percent: "uriUnreserved c \<Longrightarrow> c \<noteq> CHR ''%''"
  by (auto simp: uriUnreserved_def Let_def)

lemma uriTokens_encodeChar:
  "uriTokens (encodeChar c @ rest) = map_option ((@) (encTokens c)) (uriTokens rest)"
proof (cases "uriUnreserved c")
  case True
  then show ?thesis
    by (simp add: encodeChar_def encTokens_def uriUnreserved_not_percent append_single)
next
  case False
  have lt: "(of_char c :: nat) < 256" by simp
  show ?thesis
  proof (cases "(of_char c :: nat) < 128")
    case True
    with False lt show ?thesis
      by (simp add: encodeChar_def encTokens_def utf8Octets_def uriTokens_pctOctet append_single)
  next
    case hi: False
    from False hi show ?thesis
      by (simp add: encodeChar_def encTokens_def utf8Octets_def uriTokens_two_octets[OF lt])
  qed
qed

lemma uriTokens_encode: "uriTokens (encodeURIComponent s) = Some (concat (map encTokens s))"
  by (induction s) (simp_all add: encodeURIComponent_def uriTokens_encodeChar)

lemma decodeTokens_encTokens:
  "decodeTokens (encTokens c @ ts) = map_option ((#) (of_char c)) (decodeTokens ts)"
proof (cases "uriUnreserved c")
  case True
  then show ?thesis by (simp add: encTokens_def)
next
  case False
  have lt: "(of_char c :: nat) < 256" by simp
  show ?thesis
  proof (cases "(of_char c :: nat) < 128")
    case True
    with False show ?thesis
      by (simp add: encTokens_def utf8Octets_def utf8Units_def append_single)
  next
    case hi: False
    then have ge: "128 \<le> (of_char c :: nat)" by simp
    from False hi show ?thesis
      by (simp add: encTokens_def utf8Octets_def utf8Units_two_octets[OF ge lt] append_single)
  qed
qed

lemma decodeTokens_encode: "decodeTokens (concat (map encTokens s)) = Some (map of_char s)"
  by (induction s) (simp_all add: decodeTokens_encTokens)

lemma decode_encode: "decodeURIComponent (encodeURIComponent s) = Inr (map of_char s)"
  by (simp add: decodeURIComponent_def uriTokens_encode decodeTokens_encode)

lemma hexDigit_alnum:
  "d < 16 \<Longrightarrow> (48 \<le> (of_char (hexDigit d) :: nat) \<and> (of_char (hexDigit d) :: nat) \<le> 57)
     \<or> (65 \<le> (of_char (hexDigit d) :: nat) \<and> (of_char (hexDigit d) :: nat) \<le> 70)"
  by (simp add: hexDigit_def)

lemma hexDigit_safe: "d < 16 \<Longrightarrow> uriSafe (hexDigit d)"
  using hexDigit_alnum[of d] by (auto simp: uriSafe_def uriUnreserved_def Let_def)

lemma pctOctet_safe:
  assumes "b < 256" "x \<in> set (pctOctet b)"
  shows "uriSafe x"
proof -
  from assms(1) have "b div 16 < 16" by simp
  then have h: "uriSafe (hexDigit (b div 16))" by (rule hexDigit_safe)
  have l: "uriSafe (hexDigit (b mod 16))" by (rule hexDigit_safe) simp
  from assms(2) have "x = CHR ''%'' \<or> x = hexDigit (b div 16) \<or> x = hexDigit (b mod 16)"
    by (auto simp: pctOctet_def)
  with h l show ?thesis by (auto simp: uriSafe_def)
qed

lemma encodeChar_safe: "x \<in> set (encodeChar c) \<Longrightarrow> uriSafe x"
proof -
  assume x: "x \<in> set (encodeChar c)"
  have lt: "(of_char c :: nat) < 256" by simp
  then have a: "192 + (of_char c :: nat) div 64 < 256" by arith
  have b: "128 + (of_char c :: nat) mod 64 < 256" by arith
  from x show ?thesis
    using pctOctet_safe[OF lt, of x] pctOctet_safe[OF a, of x] pctOctet_safe[OF b, of x]
    by (auto simp: encodeChar_def utf8Octets_def uriSafe_def split: if_splits)
qed

lemma encodeURIComponent_safe: "x \<in> set (encodeURIComponent s) \<Longrightarrow> uriSafe x"
  by (auto simp: encodeURIComponent_def dest: encodeChar_safe)

lemma not_safe: "\<not> uriSafe CHR ''&''" "\<not> uriSafe CHR ''#''" "\<not> uriSafe CHR ''=''" "\<not> uriSafe CHR ''?''"
  by (simp_all add: uriSafe_def uriUnreserved_def)

subsection \<open>The query of the built URL\<close>

lemma urlQuery_split:
  assumes "CHR ''#'' \<notin> set pre" "CHR ''#'' \<notin> set q" "CHR ''?'' \<notin> set pre"
  shows "urlQuery (pre @ CHR ''?'' # q) = Some q"
proof -
  from assms(1,2)
  have tw: "takeWhile (\<lambda>c. c \<noteq> CHR ''#'') (pre @ CHR ''?'' # q) = pre @ CHR ''?'' # q"
    by (auto simp: takeWhile_eq_all_conv)
  from assms(3)
  have dw: "dropWhile (\<lambda>c. c \<noteq> CHR ''?'') (pre @ CHR ''?'' # q) = CHR ''?'' # q"
    by (rule dropWhile_until)
  show ?thesis
    unfolding urlQuery_def Let_def tw dw by simp
qed

lemma nameValue_split:
  assumes "CHR ''='' \<notin> set name"
  shows "nameValue (name @ CHR ''='' # v) = (name, v)"
  using assms by (simp add: nameValue_def takeWhile_until dropWhile_until)

lemma gistsApiUrl_shape:
  "gistsApiUrl u (Some l) None =
     (''https://api.github.com/users/'' @ u @ ''/gists'') @ CHR ''?'' # (''per_page'' @ CHR ''='' # numberToString l)"
  by (simp add: gistsApiUrl_def)

lemma queryParams_plain:
  assumes "CHR ''?'' \<notin> set u" "CHR ''#'' \<notin> set u"
  shows "queryParams (gistsApiUrl u (Some l) None) = [(''per_page'', numberToString l)]"
proof -
  have n: "CHR ''#'' \<notin> set (numberToString l)" "CHR ''&'' \<notin> set (numberToString l)"
    by (rule numberToString_free, simp)+
  from assms n(1) have "urlQuery (gistsApiUrl u (Some l) None) = Some (''per_page'' @ CHR ''='' # numberToString l)"
    unfolding gistsApiUrl_shape by (intro urlQuery_split) simp_all
  moreover from n(2) have "splitOn CHR ''&'' (''per_page'' @ CHR ''='' # numberToString l) = [''per_page'' @ CHR ''='' # numberToString l]"
    by (intro splitOn_notin) simp
  moreover have "nameValue (''per_page'' @ CHR ''='' # numberToString l) = (''per_page'', numberToString l)"
    by (rule nameValue_split) simp
  ultimately show ?thesis by (simp add: queryParams_def)
qed

lemma gistsApiUrl_since:
  "ts \<noteq> [] \<Longrightarrow> gistsApiUrl u l (Some ts) = gistsApiUrl u l None @ ''&since='' @ encodeURIComponent ts"
  by (simp add: gistsApiUrl_def Let_def)

lemma encode_free: "\<not> uriSafe x \<Longrightarrow> x \<notin> set (encodeURIComponent s)"
  using encodeURIComponent_safe by blast

lemma queryParams_since:
  assumes "CHR ''?'' \<notin> set u" "CHR ''#'' \<notin> set u" "ts \<noteq> []"
  shows "queryParams (gistsApiUrl u (Some l) (Some ts)) =
           [(''per_page'', numberToString l), (''since'', encodeURIComponent ts)]"
proof -
  let ?n = "numberToString l" and ?e = "encodeURIComponent ts"
  let ?p1 = "''per_page'' @ CHR ''='' # ?n" and ?p2 = "''since'' @ CHR ''='' # ?e"
  have n: "CHR ''#'' \<notin> set ?n" "CHR ''&'' \<notin> set ?n"
    by (rule numberToString_free, simp)+
  have e: "CHR ''#'' \<notin> set ?e" "CHR ''&'' \<notin> set ?e"
    by (rule encode_free, simp add: not_safe)+
  have shape: "gistsApiUrl u (Some l) (Some ts) =
      (''https://api.github.com/users/'' @ u @ ''/gists'') @ CHR ''?'' # (?p1 @ CHR ''&'' # ?p2)"
    using assms(3) by (simp add: gistsApiUrl_def)
  from assms n(1) e(1) have "urlQuery (gistsApiUrl u (Some l) (Some ts)) = Some (?p1 @ CHR ''&'' # ?p2)"
    unfolding shape by (intro urlQuery_split) simp_all
  moreover have "splitOn CHR ''&'' (?p1 @ CHR ''&'' # ?p2) = ?p1 # splitOn CHR ''&'' ?p2"
    using n(2) by (intro splitOn_append) simp
  moreover have "splitOn CHR ''&'' ?p2 = [?p2]"
    using e(2) by (intro splitOn_notin) simp
  moreover have "nameValue ?p1 = (''per_page'', ?n)" by (rule nameValue_split) simp
  moreover have "nameValue ?p2 = (''since'', ?e)" by (rule nameValue_split) simp
  ultimately show ?thesis by (simp add: queryParams_def)
qed

subsection \<open>Sorting\<close>

lemma compareUpdated_valid:
  assumes "updatedTime dv a = Some ta" "updatedTime dv b = Some tb"
  shows "compareUpdated dv a b = Inr (Some (tb - ta))"
  using assms by (auto simp: compareUpdated_def updatedTime_def split: sum.splits)

lemma newerOrEqual_valid:
  assumes "updatedTime dv a = Some ta" "updatedTime dv b = Some tb"
  shows "newerOrEqual dv a b \<longleftrightarrow> tb \<le> ta"
  using assms by (simp add: newerOrEqual_def)

lemma newerOrEqual_trans:
  "newerOrEqual dv a b \<Longrightarrow> newerOrEqual dv b c \<Longrightarrow> newerOrEqual dv a c"
  by (auto simp: newerOrEqual_def split: option.splits)

lemma insertSorted_valid:
  assumes "updatedTime dv x \<noteq> None" "\<forall>y\<in>set ys. updatedTime dv y \<noteq> None"
  shows "\<exists>r. insertSorted (compareUpdated dv) x ys = Inr r \<and> mset r = add_mset x (mset ys)
           \<and> (sorted_wrt (newerOrEqual dv) ys \<longrightarrow> sorted_wrt (newerOrEqual dv) r)"
  using assms(2)
proof (induction ys)
  case Nil
  then show ?case by simp
next
  case (Cons y ys)
  from assms(1) obtain tx where tx: "updatedTime dv x = Some tx" by auto
  from Cons.prems obtain ty where ty: "updatedTime dv y = Some ty" by auto
  note cmp = compareUpdated_valid[OF tx ty]
  show ?case
  proof (cases "ty - tx > 0")
    case False
    then have "newerOrEqual dv x y" by (simp add: newerOrEqual_valid[OF tx ty])
    then have "sorted_wrt (newerOrEqual dv) (y # ys) \<longrightarrow> sorted_wrt (newerOrEqual dv) (x # y # ys)"
      by (auto intro: newerOrEqual_trans)
    with False cmp show ?thesis by simp
  next
    case True
    from Cons obtain r where r: "insertSorted (compareUpdated dv) x ys = Inr r"
        "mset r = add_mset x (mset ys)"
        "sorted_wrt (newerOrEqual dv) ys \<longrightarrow> sorted_wrt (newerOrEqual dv) r"
      by auto
    from r(2) have setr: "set r = insert x (set ys)"
      by (metis set_mset_add_mset_insert set_mset_mset)
    from True have yx: "newerOrEqual dv y x" by (simp add: newerOrEqual_valid[OF ty tx])
    have "sorted_wrt (newerOrEqual dv) (y # ys) \<longrightarrow> sorted_wrt (newerOrEqual dv) (y # r)"
      using r(3) setr yx by auto
    with True cmp r(1,2) show ?thesis by simp
  qed
qed

lemma sortWith_valid:
  assumes "\<forall>y\<in>set xs. updatedTime dv y \<noteq> None"
  shows "\<exists>r. sortWith (compareUpdated dv) xs = Inr r \<and> mset r = mset xs
           \<and> sorted_wrt (newerOrEqual dv) r"
  using assms
proof (induction xs)
  case Nil
  then show ?case by simp
next
  case (Cons x xs)
  then obtain r where r: "sortWith (compareUpdated dv) xs = Inr r" "mset r = mset xs"
      "sorted_wrt (newerOrEqual dv) r"
    by auto
  from r(2) have "set r = set xs" by (metis set_mset_mset)
  with Cons.prems have "updatedTime dv x \<noteq> None" "\<forall>y\<in>set r. updatedTime dv y \<noteq> None"
    by auto
  from insertSorted_valid[OF this] r show ?case by auto
qed

lemma insertSorted_front:
  assumes "updatedTime dv x \<noteq> None" "\<forall>y\<in>set ys. updatedTime dv y \<noteq> None"
    "sorted_wrt (newerOrEqual dv) (x # ys)"
  shows "insertSorted (compareUpdated dv) x ys = Inr (x # ys)"
proof (cases ys)
  case Nil
  then show ?thesis by simp
next
  case (Cons y zs)
  from assms(1) obtain tx where tx: "updatedTime dv x = Some tx" by auto
  from assms(2) Cons obtain ty where ty: "updatedTime dv y = Some ty" by auto
  from assms(3) Cons have "newerOrEqual dv x y" by simp
  then have "\<not> ty - tx > 0" by (simp add: newerOrEqual_valid[OF tx ty])
  with compareUpdated_valid[OF tx ty] Cons show ?thesis by simp
qed

lemma sortWith_sorted:
  assumes "\<forall>y\<in>set xs. updatedTime dv y \<noteq> None" "sorted_wrt (newerOrEqual dv) xs"
  shows "sortWith (compareUpdated dv) xs = Inr xs"
  using assms
proof (induction xs)
  case Nil
  then show ?case by simp
next
  case (Cons x xs)
  then have "sortWith (compareUpdated dv) xs = Inr xs" by simp
  moreover from Cons.prems have "insertSorted (compareUpdated dv) x xs = Inr (x # xs)"
    by (intro insertSorted_front) auto
  ultimately show ?case by simp
qed

subsection \<open>The URL builder\<close>

lemma gistsApiUrl_default: "gistsApiUrl u None d = gistsApiUrl u (Some 100) d"
  by (simp add: gistsApiUrl_def)

lemma numberToString_100: "numberToString 100 = ''100''"
  by code_simp

lemma encode_threshold: "encodeURIComponent ''2022-01-01T00:00:00Z'' = ''2022-01-01T00%3A00%3A00Z''"
  by code_simp

lemma gistsApiUrl_deadflowers:
  "gistsApiUrl ''deadflowers'' (Some 100) None
     = ''https://api.github.com/users/deadflowers/gists?per_page=100''"
  by (simp add: gistsApiUrl_def numberToString_100)

text \<open>The empty string as \<open>sinceDate\<close> is taken as no timestamp.\<close>

lemma gistsApiUrl_empty_since: "gistsApiUrl u l (Some []) = gistsApiUrl u l None"
  by (simp add: gistsApiUrl_def)

section \<open>Properties of the URL builder\<close>

text \<open>
  C10. The URL builder neither encodes nor validates the username or the limit: with no
  timestamp the result is the literal concatenation of \<open>https://api.github.com/users/\<close>,
  the username, \<open>/gists?per_page=\<close> and the limit's string form, for every username and
  every limit (\<open>100\<close> when the limit is left out). A username with URL metacharacters is
  therefore embedded as it is and changes the request: with \<open>x?y=1&z\<close> the query starts
  inside the username and has no \<open>per_page\<close> parameter, with \<open>x#y\<close> there is no query.
\<close>

theorem gistsApiUrl_verbatim:
  "gistsApiUrl u (Some l) None
     = ''https://api.github.com/users/'' @ u @ ''/gists?per_page='' @ numberToString l
   \<and> gistsApiUrl u None None = ''https://api.github.com/users/'' @ u @ ''/gists?per_page=100''
   \<and> queryParams (gistsApiUrl ''x?y=1&z'' (Some 100) None)
        = [(''y'', ''1''), (''z/gists?per_page'', ''100'')]
   \<and> queryParams (gistsApiUrl ''x#y'' (Some 100) None) = []"
proof -
  have a: "gistsApiUrl u (Some l) None
     = ''https://api.github.com/users/'' @ u @ ''/gists?per_page='' @ numberToString l"
    by (simp add: gistsApiUrl_def)
  have b: "gistsApiUrl u None None = ''https://api.github.com/users/'' @ u @ ''/gists?per_page=100''"
    by (simp add: gistsApiUrl_def numberToString_100)
  have c: "queryParams (gistsApiUrl ''x?y=1&z'' (Some 100) None)
        = [(''y'', ''1''), (''z/gists?per_page'', ''100'')]"
    by code_simp
  have d: "queryParams (gistsApiUrl ''x#y'' (Some 100) None) = []"
    by code_simp
  from a b c d show ?thesis by blast
qed

text \<open>
  C8. For a username that does not itself open a query or a fragment (no \<open>?\<close>, no \<open>#\<close>;
  every GitHub username is such) and a limit from 1 to 100, the URL, built with a
  timestamp or without, contains \<open>per_page=\<close> followed by the limit and its query has the
  parameter \<open>per_page\<close> with the limit as value; built without a timestamp, the query has
  that one parameter only, so no \<open>since\<close> parameter.
\<close>

theorem per_page_param:
  assumes "CHR ''?'' \<notin> set u" and "CHR ''#'' \<notin> set u" and "1 \<le> l" and "l \<le> 100"
  shows "includesStr (gistsApiUrl u (Some l) since) (''per_page='' @ numberToString l)
       \<and> map_of (queryParams (gistsApiUrl u (Some l) since)) ''per_page'' = Some (numberToString l)
       \<and> queryParams (gistsApiUrl u (Some l) None) = [(''per_page'', numberToString l)]
       \<and> map_of (queryParams (gistsApiUrl u (Some l) None)) ''since'' = None"
proof -
  let ?n = "numberToString l"
  note plain = queryParams_plain[OF assms(1,2), of l]
  have bare: "gistsApiUrl u (Some l) None
      = (''https://api.github.com/users/'' @ u @ ''/gists?'') @ (''per_page='' @ ?n)"
    by (simp add: gistsApiUrl_def)
  have inc_bare: "includesStr (gistsApiUrl u (Some l) None) (''per_page='' @ ?n)"
    unfolding bare by (rule includesStr_suffixI)
  have "includesStr (gistsApiUrl u (Some l) since) (''per_page='' @ ?n)
       \<and> map_of (queryParams (gistsApiUrl u (Some l) since)) ''per_page'' = Some ?n"
  proof (cases since)
    case None
    with inc_bare plain show ?thesis by simp
  next
    case (Some ts)
    show ?thesis
    proof (cases "ts = []")
      case True
      with Some inc_bare plain show ?thesis by (simp add: gistsApiUrl_empty_since)
    next
      case False
      have "gistsApiUrl u (Some l) (Some ts)
          = (''https://api.github.com/users/'' @ u @ ''/gists?'') @ (''per_page='' @ ?n)
            @ (''&since='' @ encodeURIComponent ts)"
        using False by (simp add: gistsApiUrl_def)
      then have "includesStr (gistsApiUrl u (Some l) (Some ts)) (''per_page='' @ ?n)"
        by (simp only: includesStr_appendI)
      with Some queryParams_since[OF assms(1,2) False, of l] show ?thesis by simp
    qed
  qed
  with plain show ?thesis by simp
qed

theorem per_page_param_witness:
  "CHR ''?'' \<notin> set ''deadflowers'' \<and> CHR ''#'' \<notin> set ''deadflowers''
   \<and> (1::int) \<le> 100 \<and> (100::int) \<le> 100
   \<and> gistsApiUrl ''deadflowers'' (Some 100) (Some ''2022-01-01T00:00:00Z'')
        = ''https://api.github.com/users/deadflowers/gists?per_page=100&since=2022-01-01T00%3A00%3A00Z''
   \<and> includesStr (gistsApiUrl ''deadflowers'' (Some 100) (Some ''2022-01-01T00:00:00Z''))
         ''per_page=100''
   \<and> map_of (queryParams (gistsApiUrl ''deadflowers'' (Some 100) (Some ''2022-01-01T00:00:00Z'')))
         ''per_page'' = Some ''100''
   \<and> gistsApiUrl ''deadflowers'' (Some 100) None
        = ''https://api.github.com/users/deadflowers/gists?per_page=100''
   \<and> queryParams (gistsApiUrl ''deadflowers'' (Some 100) None) = [(''per_page'', ''100'')]
   \<and> map_of (queryParams (gistsApiUrl ''deadflowers'' (Some 100) None)) ''since'' = None"
proof -
  have h: "CHR ''?'' \<notin> set ''deadflowers''" "CHR ''#'' \<notin> set ''deadflowers''"
    "(1::int) \<le> 100" "(100::int) \<le> 100"
    by simp_all
  have u: "gistsApiUrl ''deadflowers'' (Some 100) (Some ''2022-01-01T00:00:00Z'')
        = ''https://api.github.com/users/deadflowers/gists?per_page=100&since=2022-01-01T00%3A00%3A00Z''"
    by (simp add: gistsApiUrl_def numberToString_100 encode_threshold)
  from per_page_param[OF h, of "Some ''2022-01-01T00:00:00Z''"] h u gistsApiUrl_deadflowers
  show ?thesis
    by (simp add: numberToString_100)
qed

text \<open>
  C3. For every timestamp (a non-empty string: the empty string is no timestamp and the
  builder takes it as absent), the URL built with it is the URL built without it followed
  by \<open>&since=\<close> and the percent-encoding of the timestamp; decoding that encoding gives
  back the timestamp, code unit by code unit; and for a username without \<open>?\<close> and \<open>#\<close>
  the query's \<open>since\<close> parameter is that encoding.
\<close>

theorem since_roundtrip:
  assumes "ts \<noteq> []"
  shows "gistsApiUrl u l (Some ts) = gistsApiUrl u l None @ ''&since='' @ encodeURIComponent ts
       \<and> decodeURIComponent (encodeURIComponent ts) = Inr (map of_char ts)
       \<and> (CHR ''?'' \<notin> set u \<and> CHR ''#'' \<notin> set u \<longrightarrow>
            map_of (queryParams (gistsApiUrl u l (Some ts))) ''since''
              = Some (encodeURIComponent ts))"
proof -
  have q: "map_of (queryParams (gistsApiUrl u l (Some ts))) ''since'' = Some (encodeURIComponent ts)"
    if "CHR ''?'' \<notin> set u" "CHR ''#'' \<notin> set u"
  proof (cases l)
    case None
    with queryParams_since[OF that assms, of 100] show ?thesis
      by (simp add: gistsApiUrl_default)
  next
    case (Some n)
    with queryParams_since[OF that assms, of n] show ?thesis by simp
  qed
  with gistsApiUrl_since[OF assms, of u l] decode_encode[of ts] show ?thesis by blast
qed

theorem since_roundtrip_witness:
  "''2022-01-01T00:00:00Z'' \<noteq> []
   \<and> gistsApiUrl ''deadflowers'' (Some 100) (Some ''2022-01-01T00:00:00Z'')
       = ''https://api.github.com/users/deadflowers/gists?per_page=100&since=2022-01-01T00%3A00%3A00Z''
   \<and> decodeURIComponent ''2022-01-01T00%3A00%3A00Z'' = Inr (map of_char ''2022-01-01T00:00:00Z'')
   \<and> CHR ''?'' \<notin> set ''deadflowers'' \<and> CHR ''#'' \<notin> set ''deadflowers''
   \<and> map_of (queryParams
         (gistsApiUrl ''deadflowers'' (Some 100) (Some ''2022-01-01T00:00:00Z''))) ''since''
       = Some ''2022-01-01T00%3A00%3A00Z''"
proof -
  have h: "''2022-01-01T00:00:00Z'' \<noteq> []" by simp
  from since_roundtrip[OF h, of "''deadflowers''" "Some 100"] show ?thesis
    unfolding encode_threshold gistsApiUrl_deadflowers by auto
qed

section \<open>Lemmas about the component\<close>

lemma requestJson_not_ok:
  assumes "fetch url = Inr resp" "\<not> ok resp" "bodyText resp = Inr body"
  shows "requestJson fetch url =
           Inl (JSError ''Error''
                 (''HTTP error: '' @ numberToString (int (status resp)) @ '' - ''
                  @ statusText resp @ ''. URL: '' @ url @ ''. Response: '' @ body))"
  using assms by (simp add: requestJson_def)

lemma render_failed:
  assumes "renderTry dateValue fetch (renderUrl s) = Inl err"
  shows "render dateValue fetch s =
           s\<lparr> loading := False, errored := True, gists := None,
              errorMsg := ''Unable to fetch Gists API data. Error: '' @ errorToString err \<rparr>"
  using assms by (simp add: render_def renderSettle_def renderStart_def)

lemma render_succeeded:
  assumes "renderTry dateValue fetch (renderUrl s) = Inr ordered"
  shows "render dateValue fetch s = s\<lparr> loading := False, errored := False, gists := Some ordered \<rparr>"
  using assms by (simp add: render_def renderSettle_def renderStart_def)

lemma render_exclusive: "\<not> (errored (render dateValue fetch s) \<and> gists (render dateValue fetch s) \<noteq> None)"
  by (cases "renderTry dateValue fetch (renderUrl s)") (simp_all add: render_failed render_succeeded)

lemma cycles_exclusive:
  "\<not> (errored s \<and> gists s \<noteq> None) \<Longrightarrow>
   \<not> (errored (cycles dateValue fs s) \<and> gists (cycles dateValue fs s) \<noteq> None)"
proof (induction fs arbitrary: s)
  case Nil
  then show ?case by simp
next
  case (Cons fetch later)
  show ?case
    using Cons.IH[OF render_exclusive[of dateValue fetch s]] by simp
qed

lemma http_message_parts:
  fixes code reason url body :: string
  defines "msg \<equiv> ''HTTP error: '' @ code @ '' - '' @ reason @ ''. URL: '' @ url @ ''. Response: '' @ body"
  shows "includesStr (pre @ msg) code" "includesStr (pre @ msg) reason"
    "includesStr (pre @ msg) url" "includesStr (pre @ msg) body"
proof -
  have "pre @ msg = (pre @ ''HTTP error: '') @ code @ ('' - '' @ reason @ ''. URL: '' @ url @ ''. Response: '' @ body)"
    by (simp add: msg_def)
  then show "includesStr (pre @ msg) code" by (simp only: includesStr_appendI)
  have "pre @ msg = (pre @ ''HTTP error: '' @ code @ '' - '') @ reason @ (''. URL: '' @ url @ ''. Response: '' @ body)"
    by (simp add: msg_def)
  then show "includesStr (pre @ msg) reason" by (simp only: includesStr_appendI)
  have "pre @ msg = (pre @ ''HTTP error: '' @ code @ '' - '' @ reason @ ''. URL: '') @ url @ (''. Response: '' @ body)"
    by (simp add: msg_def)
  then show "includesStr (pre @ msg) url" by (simp only: includesStr_appendI)
  have "pre @ msg = (pre @ ''HTTP error: '' @ code @ '' - '' @ reason @ ''. URL: '' @ url @ ''. Response: '') @ body"
    by (simp add: msg_def)
  then show "includesStr (pre @ msg) body" by (simp only: includesStr_suffixI)
qed

lemma numberToString_404: "numberToString 404 = ''404''"
  by code_simp

lemma renderUrl_data:
  "renderUrl (data ''deadflowers'' f)
     = ''https://api.github.com/users/deadflowers/gists?per_page=100&since=2022-01-01T00%3A00%3A00Z''"
  by (simp add: renderUrl_def data_def gistsApiUrl_def numberToString_100 encode_threshold)

lemma sortGists_not_array:
  "\<not> isArray v \<Longrightarrow> \<exists>m. sortGists dateValue v = Inl (JSError ''TypeError'' m)"
  by (cases v) simp_all

lemma scenario_times:
  "updatedTime scenarioDates (scenarioGist ''1'' ''Foo Bar'' ''2023-01-02T00:00:00Z'') = Some 1672617600000"
  "updatedTime scenarioDates (scenarioGist ''2'' ''Baz'' ''2023-05-01T00:00:00Z'') = Some 1682899200000"
  by (simp_all add: updatedTime_def scenarioGist_def scenarioDates_def)

text \<open>
  The paragraph "No gists found updated since" is never drawn: where its condition holds,
  the condition of the paragraph before it holds too, which is then the one chosen.
\<close>

lemma emptyNotes_never_NoGistsNote: "emptyNotes f gs since = Inr vs \<Longrightarrow> NoGistsNote d \<notin> set vs"
  by (auto simp: emptyNotes_def split: if_splits sum.splits)

lemma emptyNotes_empty: "emptyNotes f [] since = Inr [NoMatchNote since]"
  by (simp add: emptyNotes_def)

text \<open>The row's condition raises in every state, whatever the filter.\<close>

lemma rowCondition_raises:
  "rowCondition s
     = Inl (JSError ''TypeError'' ''Cannot read properties of undefined (reading 'description')'')"
  by (simp add: rowCondition_def quoted_def)

text \<open>So every render of a state that has its gists and is not loading raises.\<close>

lemma template_ready_raises:
  assumes "\<not> errored s" and "\<not> loading s" and "gists s = Some gs"
  shows "template s
     = Inl (JSError ''TypeError'' ''Cannot read properties of undefined (reading 'description')'')"
  using assms by (simp add: template_def rowCondition_raises)

lemma template_never_NoGistsNote: "template s = Inr vs \<Longrightarrow> NoGistsNote d \<notin> set vs"
  by (auto simp: template_def Let_def rowCondition_raises split: if_splits option.splits)

text \<open>On a filter that is no string, \<open>contains\<close> raises once the description is a string.\<close>

lemma contains_null_filter:
  "contains (JStr ''Foo Bar'') JNull
     = Inl (JSError ''TypeError'' ''Cannot read properties of null (reading 'toLowerCase')'')"
  by (simp add: contains_def)

section \<open>Properties of the filter predicate\<close>

text \<open>
  C4. For every description value and every filter string, \<open>contains\<close> returns (it
  never raises) and returns \<open>true\<close> exactly when the lower-cased description includes
  the lower-cased filter as a contiguous substring, where a description that is no string
  (\<open>null\<close>, \<open>undefined\<close>, a number, an object, ...) counts as the empty string; with
  the empty filter it always returns \<open>true\<close>.
\<close>

theorem contains_spec:
  "contains d (JStr f) = Inr (includesStr (toLowerCase (descriptionText d)) (toLowerCase f))
   \<and> contains d (JStr []) = Inr True
   \<and> (\<exists>b. contains d (JStr f) = Inr b
          \<and> b = sublist (toLowerCase f) (toLowerCase (descriptionText d)))"
proof -
  have "contains d (JStr f) = Inr (includesStr (toLowerCase (descriptionText d)) (toLowerCase f))"
  proof (cases "f = []")
    case True
    then show ?thesis by (simp add: contains_def toLowerCase_def includesStr_empty)
  next
    case False
    then have nf: "toLowerCase f \<noteq> []" by (simp add: toLowerCase_empty)
    show ?thesis
    proof (cases d)
      case (JStr s)
      with False show ?thesis by (cases "s = []") (simp_all add: contains_def)
    next
      case (JNum n)
      with False nf show ?thesis
        by (cases "n = 0") (simp_all add: contains_def toLowerCase_def)
    next
      case (JBool b)
      with False nf show ?thesis
        by (cases b) (simp_all add: contains_def toLowerCase_def)
    qed (use False nf in \<open>simp_all add: contains_def toLowerCase_def\<close>)
  qed
  moreover have "contains d (JStr []) = Inr True" by (simp add: contains_def)
  ultimately show ?thesis by (simp add: includesStr_sublist)
qed

section \<open>Properties of the controller\<close>

text \<open>
  C1, as the code has it. When a fetch cycle starts, \<open>loading\<close> becomes true, \<open>errored\<close>
  becomes false and the stored gist list is cleared to absent. The \<open>errorMsg\<close> field is
  not cleared: it keeps its value, like the props and the threshold. Nothing of an earlier
  cycle is on screen while the request is in flight, since the template shows \<open>errorMsg\<close>
  only while \<open>errored\<close> holds: the view is the loading note alone.
\<close>

theorem render_start_state:
  "loading (renderStart s) \<and> \<not> errored (renderStart s) \<and> gists (renderStart s) = None
   \<and> errorMsg (renderStart s) = errorMsg s
   \<and> username (renderStart s) = username s \<and> filterText (renderStart s) = filterText s
   \<and> sinceDateThreshold (renderStart s) = sinceDateThreshold s
   \<and> template (renderStart s) = Inr [LoadingNote (slice0 10 (sinceDateThreshold s))]"
  by (simp add: renderStart_def template_def)

text \<open>
  The message of a failed cycle is still stored after the next cycle has started: C1's
  "the previously stored error message is cleared" does not hold.
\<close>

theorem render_start_keeps_errorMsg:
  "errorMsg (renderStart (render scenarioDates (reject (JSError ''TypeError'' ''Failed to fetch''))
       (data ''deadflowers'' [])))
     = ''Unable to fetch Gists API data. Error: TypeError: Failed to fetch''
   \<and> errorMsg (renderStart (render scenarioDates (reject (JSError ''TypeError'' ''Failed to fetch''))
       (data ''deadflowers'' []))) \<noteq> []"
  by (simp add: renderStart_def render_def renderSettle_def renderTry_def requestJson_def data_def
      reject_def)

text \<open>
  C2, evaluated. For a successful response whose body is the empty JSON array, whatever
  the state and the filter, the controller ends with \<open>loading\<close> false, \<open>errored\<close> false
  and the empty list stored, as the claim says. The render of that state raises a
  TypeError in the condition of the table's row, so neither the paragraph "No gists found
  updated since" nor any other block is drawn. The two paragraphs by themselves would not
  show it either: for the empty list their chain chooses "No gists found matching your
  filter criteria".
\<close>

theorem empty_result_view:
  "loading (render dateValue (respond 200 reason body (Inr (JArr []))) s) = False
   \<and> errored (render dateValue (respond 200 reason body (Inr (JArr []))) s) = False
   \<and> gists (render dateValue (respond 200 reason body (Inr (JArr []))) s) = Some []
   \<and> template (render dateValue (respond 200 reason body (Inr (JArr []))) s)
       = Inl (JSError ''TypeError'' ''Cannot read properties of undefined (reading 'description')'')
   \<and> emptyNotes (filterText s) [] (slice0 10 (sinceDateThreshold s))
       = Inr [NoMatchNote (slice0 10 (sinceDateThreshold s))]"
proof -
  let ?s' = "render dateValue (respond 200 reason body (Inr (JArr []))) s"
  have st: "loading ?s' = False" "errored ?s' = False" "gists ?s' = Some []"
    by (simp_all add: render_def renderSettle_def renderTry_def requestJson_def respond_def ok_def
        renderStart_def)
  then have "template ?s'
       = Inl (JSError ''TypeError'' ''Cannot read properties of undefined (reading 'description')'')"
    by (intro template_ready_raises) simp_all
  with st emptyNotes_empty show ?thesis by simp
qed

text \<open>
  C6. When the response has a status outside 200 to 299 and its body can be read as text,
  \<open>requestJson\<close> fails with an \<open>Error\<close> whose message includes the status code in
  decimal, the status text, the request URL and the body text. When the request is
  \<open>render\<close>'s, the controller ends errored, not loading, with no gist list, and its
  \<open>errorMsg\<close> includes the four as well; for status 404 with body \<open>Not Found\<close> it
  includes \<open>404\<close> and \<open>Not Found\<close>.
\<close>

theorem http_error_message:
  assumes "fetch url = Inr resp" and "\<not> ok resp" and "bodyText resp = Inr body"
  shows "\<exists>msg. requestJson fetch url = Inl (JSError ''Error'' msg)
           \<and> includesStr msg (numberToString (int (status resp)))
           \<and> includesStr msg (statusText resp)
           \<and> includesStr msg url
           \<and> includesStr msg body
           \<and> (url = renderUrl s \<longrightarrow>
                errored (render dateValue fetch s) \<and> \<not> loading (render dateValue fetch s)
                \<and> gists (render dateValue fetch s) = None
                \<and> errorMsg (render dateValue fetch s)
                    = ''Unable to fetch Gists API data. Error: Error: '' @ msg
                \<and> includesStr (errorMsg (render dateValue fetch s)) (numberToString (int (status resp)))
                \<and> includesStr (errorMsg (render dateValue fetch s)) (statusText resp)
                \<and> includesStr (errorMsg (render dateValue fetch s)) url
                \<and> includesStr (errorMsg (render dateValue fetch s)) body)"
proof -
  let ?msg = "''HTTP error: '' @ numberToString (int (status resp)) @ '' - ''
                  @ statusText resp @ ''. URL: '' @ url @ ''. Response: '' @ body"
  note rq = requestJson_not_ok[of fetch url resp body, OF assms]
  have parts: "includesStr (pre @ ?msg) (numberToString (int (status resp)))"
    "includesStr (pre @ ?msg) (statusText resp)" "includesStr (pre @ ?msg) url"
    "includesStr (pre @ ?msg) body" for pre
    by (rule http_message_parts)+
  have ctl: "errored (render dateValue fetch s) \<and> \<not> loading (render dateValue fetch s)
                \<and> gists (render dateValue fetch s) = None
                \<and> errorMsg (render dateValue fetch s)
                    = ''Unable to fetch Gists API data. Error: Error: '' @ ?msg" if "url = renderUrl s"
  proof -
    from rq that have "renderTry dateValue fetch (renderUrl s) = Inl (JSError ''Error'' ?msg)"
      by (simp add: renderTry_def)
    from render_failed[OF this] show ?thesis by simp
  qed
  show ?thesis
  proof (intro exI[of _ ?msg] conjI impI)
    show "requestJson fetch url = Inl (JSError ''Error'' ?msg)" by (rule rq)
    show "includesStr ?msg (numberToString (int (status resp)))" using parts(1)[of "[]"] by simp
    show "includesStr ?msg (statusText resp)" using parts(2)[of "[]"] by simp
    show "includesStr ?msg url" using parts(3)[of "[]"] by simp
    show "includesStr ?msg body" using parts(4)[of "[]"] by simp
  next
    assume u: "url = renderUrl s"
    note c = ctl[OF u]
    from c show "errored (render dateValue fetch s)" by simp
    from c show "\<not> loading (render dateValue fetch s)" by simp
    from c show "gists (render dateValue fetch s) = None" by simp
    from c show e: "errorMsg (render dateValue fetch s)
                    = ''Unable to fetch Gists API data. Error: Error: '' @ ?msg" by simp
    show "includesStr (errorMsg (render dateValue fetch s)) (numberToString (int (status resp)))"
      unfolding e by (rule parts(1))
    show "includesStr (errorMsg (render dateValue fetch s)) (statusText resp)"
      unfolding e by (rule parts(2))
    show "includesStr (errorMsg (render dateValue fetch s)) url"
      unfolding e by (rule parts(3))
    show "includesStr (errorMsg (render dateValue fetch s)) body"
      unfolding e by (rule parts(4))
  qed
qed

theorem http_error_message_witness:
  "respond 404 ''Not Found'' ''Not Found'' (Inr JNull) (renderUrl (data ''deadflowers'' []))
     = Inr \<lparr> status = 404, statusText = ''Not Found'', bodyText = Inr ''Not Found'', bodyJson = Inr JNull \<rparr>
   \<and> \<not> ok \<lparr> status = 404, statusText = ''Not Found'', bodyText = Inr ''Not Found'', bodyJson = Inr JNull \<rparr>
   \<and> requestJson (respond 404 ''Not Found'' ''Not Found'' (Inr JNull)) (renderUrl (data ''deadflowers'' []))
       = Inl (JSError ''Error'' ''HTTP error: 404 - Not Found. URL: https://api.github.com/users/deadflowers/gists?per_page=100&since=2022-01-01T00%3A00%3A00Z. Response: Not Found'')
   \<and> errored (render scenarioDates (respond 404 ''Not Found'' ''Not Found'' (Inr JNull)) (data ''deadflowers'' []))
   \<and> \<not> loading (render scenarioDates (respond 404 ''Not Found'' ''Not Found'' (Inr JNull)) (data ''deadflowers'' []))
   \<and> gists (render scenarioDates (respond 404 ''Not Found'' ''Not Found'' (Inr JNull)) (data ''deadflowers'' [])) = None
   \<and> includesStr (errorMsg (render scenarioDates (respond 404 ''Not Found'' ''Not Found'' (Inr JNull)) (data ''deadflowers'' []))) ''404''
   \<and> includesStr (errorMsg (render scenarioDates (respond 404 ''Not Found'' ''Not Found'' (Inr JNull)) (data ''deadflowers'' []))) ''Not Found''"
proof -
  let ?resp = "\<lparr> status = 404, statusText = ''Not Found'', bodyText = Inr ''Not Found'', bodyJson = Inr JNull \<rparr>"
  let ?fetch = "respond 404 ''Not Found'' ''Not Found'' (Inr JNull)"
  let ?s = "data ''deadflowers'' []"
  have h1: "?fetch (renderUrl ?s) = Inr ?resp" by (simp add: respond_def)
  have h2: "\<not> ok ?resp" by (simp add: ok_def)
  have h3: "bodyText ?resp = Inr ''Not Found''" by simp
  have rq: "requestJson ?fetch (renderUrl ?s)
       = Inl (JSError ''Error'' ''HTTP error: 404 - Not Found. URL: https://api.github.com/users/deadflowers/gists?per_page=100&since=2022-01-01T00%3A00%3A00Z. Response: Not Found'')"
    unfolding requestJson_not_ok[of ?fetch "renderUrl ?s" ?resp, OF h1 h2 h3]
    by (simp add: numberToString_404 renderUrl_data)
  from http_error_message[of ?fetch "renderUrl ?s" ?resp "''Not Found''" ?s scenarioDates, OF h1 h2 h3]
  show ?thesis using h1 h2 rq by (auto simp: numberToString_404)
qed

text \<open>
  C7. In every state the component reaches from its initial data, after \<open>mounted\<close> and
  after any number of fetch cycles run one after the other, between cycles or while a
  request is in flight, \<open>errored\<close> and a stored gist list never hold together. Whenever the \<open>try\<close> block of a cycle fails with
  an error, the cycle ends errored, not loading, with no gist list, and \<open>errorMsg\<close> is
  the fixed prefix followed by the error's string form.
\<close>

theorem errored_excludes_gists:
  "\<not> (errored (data u f) \<and> gists (data u f) \<noteq> None)
   \<and> \<not> (errored (mounted dateValue fetch (data u f))
         \<and> gists (mounted dateValue fetch (data u f)) \<noteq> None)
   \<and> \<not> (errored (cycles dateValue fs (data u f)) \<and> gists (cycles dateValue fs (data u f)) \<noteq> None)
   \<and> \<not> (errored (renderStart (cycles dateValue fs (data u f)))
         \<and> gists (renderStart (cycles dateValue fs (data u f))) \<noteq> None)
   \<and> (renderTry dateValue fetch (renderUrl s) = Inl err \<longrightarrow>
         errored (render dateValue fetch s) \<and> \<not> loading (render dateValue fetch s)
         \<and> gists (render dateValue fetch s) = None
         \<and> errorMsg (render dateValue fetch s)
             = ''Unable to fetch Gists API data. Error: '' @ errorToString err
         \<and> includesStr (errorMsg (render dateValue fetch s)) (errorToString err))"
proof -
  have i: "\<not> (errored (data u f) \<and> gists (data u f) \<noteq> None)" by (simp add: data_def)
  have m: "\<not> (errored (mounted dateValue fetch (data u f))
         \<and> gists (mounted dateValue fetch (data u f)) \<noteq> None)"
    unfolding mounted_def by (rule render_exclusive)
  from i have a: "\<not> (errored (cycles dateValue fs (data u f)) \<and> gists (cycles dateValue fs (data u f)) \<noteq> None)"
    by (rule cycles_exclusive)
  have b: "\<not> (errored (renderStart (cycles dateValue fs (data u f)))
         \<and> gists (renderStart (cycles dateValue fs (data u f))) \<noteq> None)"
    by (simp add: renderStart_def)
  have c: "errored (render dateValue fetch s) \<and> \<not> loading (render dateValue fetch s)
         \<and> gists (render dateValue fetch s) = None
         \<and> errorMsg (render dateValue fetch s)
             = ''Unable to fetch Gists API data. Error: '' @ errorToString err
         \<and> includesStr (errorMsg (render dateValue fetch s)) (errorToString err)"
    if "renderTry dateValue fetch (renderUrl s) = Inl err"
  proof -
    note r = render_failed[OF that]
    have e: "errorMsg (render dateValue fetch s)
             = ''Unable to fetch Gists API data. Error: '' @ errorToString err"
      unfolding r by simp
    have "includesStr (errorMsg (render dateValue fetch s)) (errorToString err)"
      unfolding e by (rule includesStr_suffixI)
    moreover have "errored (render dateValue fetch s)" "\<not> loading (render dateValue fetch s)"
      "gists (render dateValue fetch s) = None"
      unfolding r by simp_all
    ultimately show ?thesis using e by blast
  qed
  from i m a b c show ?thesis by blast
qed

theorem errored_excludes_gists_witness:
  "renderTry scenarioDates (reject (JSError ''TypeError'' ''Failed to fetch''))
       (renderUrl (data ''deadflowers'' []))
     = Inl (JSError ''TypeError'' ''Failed to fetch'')
   \<and> render scenarioDates (reject (JSError ''TypeError'' ''Failed to fetch'')) (data ''deadflowers'' [])
       = \<lparr> username = ''deadflowers'', filterText = [], gists = None, loading = False, errored = True,
           errorMsg = ''Unable to fetch Gists API data. Error: TypeError: Failed to fetch'',
           sinceDateThreshold = ''2022-01-01T00:00:00Z'' \<rparr>
   \<and> includesStr
         (errorMsg (render scenarioDates (reject (JSError ''TypeError'' ''Failed to fetch''))
            (data ''deadflowers'' [])))
         ''TypeError: Failed to fetch''
   \<and> \<not> (errored (cycles scenarioDates [reject (JSError ''TypeError'' ''Failed to fetch'')]
              (data ''deadflowers'' []))
         \<and> gists (cycles scenarioDates [reject (JSError ''TypeError'' ''Failed to fetch'')]
              (data ''deadflowers'' [])) \<noteq> None)"
proof -
  let ?fetch = "reject (JSError ''TypeError'' ''Failed to fetch'')"
  let ?s = "data ''deadflowers'' []"
  have h: "renderTry scenarioDates ?fetch (renderUrl ?s) = Inl (JSError ''TypeError'' ''Failed to fetch'')"
    by (simp add: renderTry_def requestJson_def reject_def)
  have r: "render scenarioDates ?fetch ?s
       = \<lparr> username = ''deadflowers'', filterText = [], gists = None, loading = False, errored = True,
           errorMsg = ''Unable to fetch Gists API data. Error: TypeError: Failed to fetch'',
           sinceDateThreshold = ''2022-01-01T00:00:00Z'' \<rparr>"
    unfolding render_failed[OF h] by (simp add: data_def)
  from errored_excludes_gists[where dateValue = scenarioDates and fs = "[?fetch]"
      and u = "''deadflowers''" and f = "[]" and fetch = ?fetch and s = ?s
      and err = "JSError ''TypeError'' ''Failed to fetch''"] h r
  show ?thesis by simp
qed

text \<open>
  C9. When the response is successful and its JSON body is no array, the sort raises a
  TypeError inside the \<open>try\<close> block and the controller ends errored, not loading, with no
  gist list, the error's string form in \<open>errorMsg\<close>.
\<close>

theorem non_array_body_errors:
  assumes "fetch (renderUrl s) = Inr resp" and "ok resp" and "bodyJson resp = Inr v"
    and "\<not> isArray v"
  shows "\<exists>m. renderTry dateValue fetch (renderUrl s) = Inl (JSError ''TypeError'' m)
           \<and> errored (render dateValue fetch s) \<and> \<not> loading (render dateValue fetch s)
           \<and> gists (render dateValue fetch s) = None
           \<and> errorMsg (render dateValue fetch s)
               = ''Unable to fetch Gists API data. Error: '' @ errorToString (JSError ''TypeError'' m)"
proof -
  from assms(4) obtain m where m: "sortGists dateValue v = Inl (JSError ''TypeError'' m)"
    using sortGists_not_array by blast
  from assms(1-3) have "requestJson fetch (renderUrl s) = Inr v"
    by (simp add: requestJson_def)
  with m have t: "renderTry dateValue fetch (renderUrl s) = Inl (JSError ''TypeError'' m)"
    by (simp add: renderTry_def)
  from render_failed[OF t] t show ?thesis by simp
qed

theorem non_array_body_errors_witness:
  "respond 200 ''OK'' ''{}'' (Inr (JObj [])) (renderUrl (data ''deadflowers'' []))
     = Inr \<lparr> status = 200, statusText = ''OK'', bodyText = Inr ''{}'', bodyJson = Inr (JObj []) \<rparr>
   \<and> ok \<lparr> status = 200, statusText = ''OK'', bodyText = Inr ''{}'', bodyJson = Inr (JObj []) \<rparr>
   \<and> \<not> isArray (JObj [])
   \<and> render scenarioDates (respond 200 ''OK'' ''{}'' (Inr (JObj []))) (data ''deadflowers'' [])
       = \<lparr> username = ''deadflowers'', filterText = [], gists = None, loading = False, errored = True,
           errorMsg = ''Unable to fetch Gists API data. Error: TypeError: fetchedGists.sort is not a function'',
           sinceDateThreshold = ''2022-01-01T00:00:00Z'' \<rparr>"
proof -
  let ?resp = "\<lparr> status = 200, statusText = ''OK'', bodyText = Inr ''{}'', bodyJson = Inr (JObj []) \<rparr>"
  let ?fetch = "respond 200 ''OK'' ''{}'' (Inr (JObj []))"
  let ?s = "data ''deadflowers'' []"
  have h1: "?fetch (renderUrl ?s) = Inr ?resp" by (simp add: respond_def)
  have h2: "ok ?resp" by (simp add: ok_def)
  have h3: "bodyJson ?resp = Inr (JObj [])" by simp
  have h4: "\<not> isArray (JObj [])" by simp
  have t: "renderTry scenarioDates ?fetch (renderUrl ?s)
             = Inl (JSError ''TypeError'' ''fetchedGists.sort is not a function'')"
    by (simp add: renderTry_def requestJson_def respond_def ok_def)
  from non_array_body_errors[of ?fetch ?s ?resp "JObj []" scenarioDates, OF h1 h2 h3 h4] t
  obtain m where "errorMsg (render scenarioDates ?fetch ?s)
               = ''Unable to fetch Gists API data. Error: '' @ errorToString (JSError ''TypeError'' m)"
      "m = ''fetchedGists.sort is not a function''"
      "errored (render scenarioDates ?fetch ?s)" "\<not> loading (render scenarioDates ?fetch ?s)"
      "gists (render scenarioDates ?fetch ?s) = None"
    by auto
  moreover have "username (render scenarioDates ?fetch ?s) = ''deadflowers''"
      "filterText (render scenarioDates ?fetch ?s) = []"
      "sinceDateThreshold (render scenarioDates ?fetch ?s) = ''2022-01-01T00:00:00Z''"
    unfolding render_failed[OF t] by (simp_all add: data_def)
  ultimately have "render scenarioDates ?fetch ?s
       = \<lparr> username = ''deadflowers'', filterText = [], gists = None, loading = False, errored = True,
           errorMsg = ''Unable to fetch Gists API data. Error: TypeError: fetchedGists.sort is not a function'',
           sinceDateThreshold = ''2022-01-01T00:00:00Z'' \<rparr>"
    by (cases "render scenarioDates ?fetch ?s") simp
  with h1 h2 h4 show ?thesis by simp
qed

text \<open>
  C5. When a successful response carries an array of gists each of which has an
  \<open>updated_at\<close> that makes a valid date, the controller stores the same gists sorted by
  \<open>updated_at\<close>, most recent first, and sorting the stored list again returns it
  unchanged.
\<close>

theorem stored_gists_sorted:
  assumes "fetch (renderUrl s) = Inr resp" and "ok resp" and "bodyJson resp = Inr (JArr gs)"
    and "\<forall>g\<in>set gs. updatedTime dateValue g \<noteq> None"
  shows "\<exists>stored. gists (render dateValue fetch s) = Some stored
           \<and> \<not> errored (render dateValue fetch s) \<and> \<not> loading (render dateValue fetch s)
           \<and> mset stored = mset gs
           \<and> sorted_wrt (newerOrEqual dateValue) stored
           \<and> sortGists dateValue (JArr stored) = Inr stored"
proof -
  from sortWith_valid[OF assms(4)] obtain stored where
    st: "sortWith (compareUpdated dateValue) gs = Inr stored" "mset stored = mset gs"
      "sorted_wrt (newerOrEqual dateValue) stored"
    by blast
  from assms(1-3) have "requestJson fetch (renderUrl s) = Inr (JArr gs)"
    by (simp add: requestJson_def)
  with st(1) have "renderTry dateValue fetch (renderUrl s) = Inr stored"
    by (simp add: renderTry_def)
  note r = render_succeeded[OF this]
  from st(2) have "set stored = set gs" by (metis set_mset_mset)
  with assms(4) have "\<forall>g\<in>set stored. updatedTime dateValue g \<noteq> None" by simp
  from sortWith_sorted[OF this st(3)] have "sortGists dateValue (JArr stored) = Inr stored"
    by simp
  moreover have "gists (render dateValue fetch s) = Some stored"
    "\<not> errored (render dateValue fetch s)" "\<not> loading (render dateValue fetch s)"
    unfolding r by simp_all
  ultimately show ?thesis using st(2,3) by blast
qed

theorem stored_gists_sorted_witness:
  "respond 200 ''OK'' [] (Inr (JArr [scenarioGist ''1'' ''Foo Bar'' ''2023-01-02T00:00:00Z'',
                                     scenarioGist ''2'' ''Baz'' ''2023-05-01T00:00:00Z'']))
       (renderUrl (data ''deadflowers'' []))
     = Inr \<lparr> status = 200, statusText = ''OK'', bodyText = Inr [],
             bodyJson = Inr (JArr [scenarioGist ''1'' ''Foo Bar'' ''2023-01-02T00:00:00Z'',
                                   scenarioGist ''2'' ''Baz'' ''2023-05-01T00:00:00Z'']) \<rparr>
   \<and> updatedTime scenarioDates (scenarioGist ''1'' ''Foo Bar'' ''2023-01-02T00:00:00Z'') \<noteq> None
   \<and> updatedTime scenarioDates (scenarioGist ''2'' ''Baz'' ''2023-05-01T00:00:00Z'') \<noteq> None
   \<and> gists (render scenarioDates
        (respond 200 ''OK'' [] (Inr (JArr [scenarioGist ''1'' ''Foo Bar'' ''2023-01-02T00:00:00Z'',
                                           scenarioGist ''2'' ''Baz'' ''2023-05-01T00:00:00Z''])))
        (data ''deadflowers'' []))
      = Some [scenarioGist ''2'' ''Baz'' ''2023-05-01T00:00:00Z'',
              scenarioGist ''1'' ''Foo Bar'' ''2023-01-02T00:00:00Z'']
   \<and> sorted_wrt (newerOrEqual scenarioDates)
        [scenarioGist ''2'' ''Baz'' ''2023-05-01T00:00:00Z'',
         scenarioGist ''1'' ''Foo Bar'' ''2023-01-02T00:00:00Z'']
   \<and> sortGists scenarioDates
        (JArr [scenarioGist ''2'' ''Baz'' ''2023-05-01T00:00:00Z'',
               scenarioGist ''1'' ''Foo Bar'' ''2023-01-02T00:00:00Z''])
      = Inr [scenarioGist ''2'' ''Baz'' ''2023-05-01T00:00:00Z'',
             scenarioGist ''1'' ''Foo Bar'' ''2023-01-02T00:00:00Z'']"
proof -
  let ?g1 = "scenarioGist ''1'' ''Foo Bar'' ''2023-01-02T00:00:00Z''"
  let ?g2 = "scenarioGist ''2'' ''Baz'' ''2023-05-01T00:00:00Z''"
  let ?resp = "\<lparr> status = 200, statusText = ''OK'', bodyText = Inr [], bodyJson = Inr (JArr [?g1, ?g2]) \<rparr>"
  let ?fetch = "respond 200 ''OK'' [] (Inr (JArr [?g1, ?g2]))"
  let ?s = "data ''deadflowers'' []"
  have h1: "?fetch (renderUrl ?s) = Inr ?resp" by (simp add: respond_def)
  have h2: "ok ?resp" by (simp add: ok_def)
  have h3: "bodyJson ?resp = Inr (JArr [?g1, ?g2])" by simp
  have h4: "\<forall>g\<in>set [?g1, ?g2]. updatedTime scenarioDates g \<noteq> None"
    by (simp add: scenario_times)
  have c: "compareUpdated scenarioDates ?g1 ?g2 = Inr (Some (1682899200000 - 1672617600000))"
    by (rule compareUpdated_valid[OF scenario_times])
  have srt: "sortWith (compareUpdated scenarioDates) [?g1, ?g2] = Inr [?g2, ?g1]"
    by (simp add: c)
  from stored_gists_sorted[of ?fetch ?s ?resp "[?g1, ?g2]" scenarioDates, OF h1 h2 h3 h4]
  obtain stored where st: "gists (render scenarioDates ?fetch ?s) = Some stored"
      "sorted_wrt (newerOrEqual scenarioDates) stored"
      "sortGists scenarioDates (JArr stored) = Inr stored"
    by blast
  have "requestJson ?fetch (renderUrl ?s) = Inr (JArr [?g1, ?g2])"
    using h1 h2 by (simp add: requestJson_def)
  with srt have "renderTry scenarioDates ?fetch (renderUrl ?s) = Inr [?g2, ?g1]"
    by (simp add: renderTry_def)
  from render_succeeded[OF this] st(1) have "stored = [?g2, ?g1]" by simp
  with st h1 show ?thesis by (simp add: scenario_times)
qed

end
